theory Spec2Isabelle
  imports Main "HOL-Library.Sublist"
begin

section \<open>Geo Session Analyzer: the session controller of \<open>start.py\<close>\<close>

text \<open>
  The development embeds the class \<open>GeoAnalysisApp\<close> of \<open>start.py\<close>: its four-state
  controller, the capture-and-send cycle, the final analysis with the parsing of the
  model's reply, and the plotting of the decoded records.

  Conventions of the embedding.
  \<^item> A Python \<open>str\<close> is a \<open>string\<close>; every \<open>char\<close> stands for one code point, so the
    texts range over the code points below 256.
  \<^item> The attributes of the object and the contents of its widgets are the fields of the
    record \<open>app\<close>; a method is a function from \<open>app\<close> to \<open>app\<close>.
  \<^item> The collaborators are part of the record as far as the controller drives them: the
    pending timer jobs of the Tk loop, the message boxes shown, and the log of the calls
    made to the Session Client. What the collaborators answer (the captured image, the
    reply or the exception of \<open>send_message\<close>, the result of \<open>json.loads\<close>) is an
    argument of the function that asks for it.
  \<^item> A background unit (\<open>threading.Thread\<close>) is a function that returns the record after
    the unit's own statements, together with the callbacks it handed to
    \<open>root.after(0, ...)\<close>; the loop runs these callbacks afterwards, in order. Other
    units and commands can fall into a unit at its call of \<open>send_message\<close> and, in a
    capture-and-send unit, between the append of the frame and the increment of the
    counter: the parts of a unit from there on are also events of their own. A command
    runs as one step.
  \<^item> The map widget, the labels and the text widget are stores that take every update.
  \<^item> \<open>print\<close> is not modelled.
\<close>

subsection \<open>Strings\<close>

abbreviation NL :: string where
  "NL \<equiv> [CHR 0x0A]"

abbreviation QUOTE :: string where
  "QUOTE \<equiv> [CHR 0x27]"

text \<open>\<open>str.find(sub)\<close>: the lowest index where \<open>sub\<close> occurs, \<open>-1\<close> when it does not.\<close>

fun find_from :: "string \<Rightarrow> string \<Rightarrow> nat \<Rightarrow> int" where
  "find_from sub [] i = (if sub = [] then int i else - 1)"
| "find_from sub (c # cs) i =
     (if prefix sub (c # cs) then int i else find_from sub cs (Suc i))"

definition find :: "string \<Rightarrow> string \<Rightarrow> int" where
  "find s sub = find_from sub s 0"

text \<open>
  \<open>str.isspace\<close> on one character, for the code points below 256: TAB to CR, the
  separators FS to US, the space, NEL and the no-break space.
\<close>

definition isspace :: "char \<Rightarrow> bool" where
  "isspace c =
     (let n = (of_char c :: nat)
      in (9 \<le> n \<and> n \<le> 13) \<or> (28 \<le> n \<and> n \<le> 32) \<or> n = 133 \<or> n = 160)"

text \<open>\<open>str.strip()\<close>: leading and trailing whitespace removed.\<close>

definition strip :: "string \<Rightarrow> string" where
  "strip s = rev (dropWhile isspace (rev (dropWhile isspace s)))"

text \<open>The slices \<open>s[:j]\<close> and \<open>s[i:j]\<close> for indices that are not negative.\<close>

definition slice_to :: "string \<Rightarrow> int \<Rightarrow> string" where
  "slice_to s j = take (nat j) s"

definition slice :: "string \<Rightarrow> int \<Rightarrow> int \<Rightarrow> string" where
  "slice s i j = take (nat j - nat i) (drop (nat i) s)"

text \<open>\<open>str(n)\<close> for an integer that is not negative: its decimal digits.\<close>

definition digit_char :: "nat \<Rightarrow> char" where
  "digit_char d = char_of (48 + d)"

fun str_nat :: "nat \<Rightarrow> string" where
  "str_nat n = (if n < 10 then [digit_char n] else str_nat (n div 10) @ [digit_char (n mod 10)])"

declare str_nat.simps [simp del]

subsection \<open>Decoded JSON values and \<open>float()\<close>\<close>

text \<open>
  A Python \<open>float\<close> is kept as the conversion that produced it: the arithmetic of floats
  plays no part in the controller, which only hands the numbers to the map.
\<close>

datatype pyfloat = FloatOfInt int | FloatOfBool bool | FloatOfStr string

text \<open>
  What \<open>json.loads\<close> returns. A \<open>JObj\<close> lists the items of the \<open>dict\<close>, each key once.
\<close>

datatype json =
    JNull
  | JBool bool
  | JInt int
  | JFloat pyfloat
  | JStr string
  | JArr "json list"
  | JObj "(string \<times> json) list"

datatype pyexc = ValueError | TypeError | AttributeError | OverflowError

text \<open>
  \<open>item.get(key)\<close>: only a \<open>dict\<close> has the method; a missing key gives \<open>None\<close>.
\<close>

fun py_get :: "json \<Rightarrow> string \<Rightarrow> pyexc + json" where
  "py_get (JObj d) k = (case map_of d k of None \<Rightarrow> Inr JNull | Some v \<Rightarrow> Inr v)"
| "py_get _ k = Inl AttributeError"

text \<open>
  The built-in \<open>float(x)\<close> on a decoded value. \<open>None\<close>, a list and a dict raise
  \<open>TypeError\<close>; a \<open>bool\<close> and a \<open>float\<close> convert; an \<open>int\<close> converts when it rounds to a
  finite double, that is below \<open>2^1024 - 2^970\<close> in absolute value, and raises
  \<open>OverflowError\<close> otherwise; a \<open>str\<close> converts when it spells a float and raises
  \<open>ValueError\<close> otherwise. Which strings spell a float is the argument \<open>spells\<close>.
\<close>

fun py_float :: "(string \<Rightarrow> bool) \<Rightarrow> json \<Rightarrow> pyexc + pyfloat" where
  "py_float spells JNull = Inl TypeError"
| "py_float spells (JBool b) = Inr (FloatOfBool b)"
| "py_float spells (JInt n) =
     (if \<bar>n\<bar> < 2 ^ 1024 - 2 ^ 970 then Inr (FloatOfInt n) else Inl OverflowError)"
| "py_float spells (JFloat x) = Inr x"
| "py_float spells (JStr s) = (if spells s then Inr (FloatOfStr s) else Inl ValueError)"
| "py_float spells (JArr xs) = Inl TypeError"
| "py_float spells (JObj d) = Inl TypeError"

text \<open>
  What \<open>json.loads(text)\<close> does: it returns the decoded value, or raises
  \<open>json.JSONDecodeError\<close> on a text that is not a JSON document, or raises another
  exception (a \<open>RecursionError\<close> on a document nested too deeply, for one). The
  exceptions carry their text, \<open>str(e)\<close>.
\<close>

datatype decoded = Decoded json | JSONDecodeError string | Raised string

subsection \<open>The application object\<close>

datatype state_flag = IDLE | RECORDING | PAUSED | ANALYZING

text \<open>A button: whether it is enabled (\<open>tk.NORMAL\<close>), and its text.\<close>

type_synonym button = "bool \<times> string"

text \<open>A marker of the map: latitude, longitude, text.\<close>

type_synonym marker = "pyfloat \<times> pyfloat \<times> string"

text \<open>
  A turn sent to the Session Client: \<open>[PROMPT_FOR_FRAME, img]\<close>, or the introduction,
  the frames and \<open>PROMPT_FINAL_ANALYSIS\<close>.
\<close>

datatype 'img turn = FrameTurn 'img | FinalTurn string "'img list"

record 'img app =
  chat_session :: "nat option"
  captured_frames :: "'img list"
  state :: state_flag
  frame_sender_job_id :: "nat option"
  frame_count :: nat
  start_button :: button
  pause_resume_button :: button
  stop_button :: button
  clear_button :: button
  status_label :: "string \<times> string"
  frame_count_label :: string
  analysis_text :: string
  coords_status_label :: string
  map_markers :: "marker list"
  map_position :: "pyfloat \<times> pyfloat"
  map_zoom :: nat
  timers :: "nat list"
  next_job :: nat
  sessions_started :: nat
  client_calls :: "(nat \<times> 'img turn) list"
  warnings :: "(string \<times> string) list"

text \<open>
  \<open>chat_session\<close> is the reference to the session object, numbered by \<open>start_chat\<close>
  call; \<open>timers\<close> are the jobs of \<open>root.after(FRAME_INTERVAL_MS, ...)\<close> that have neither
  fired nor been cancelled; \<open>client_calls\<close> lists every call of \<open>send_message\<close> with the
  session it went to; \<open>warnings\<close> lists the \<open>messagebox.showwarning\<close> dialogs by title
  and message.
\<close>

subsection \<open>Presenter updates\<close>

definition update_status :: "string \<Rightarrow> string \<Rightarrow> 'img app \<Rightarrow> 'img app" where
  "update_status text color s =
     (if text \<noteq> [] then s\<lparr>status_label := (''Status: '' @ text, color)\<rparr> else s)"

definition update_frame_count :: "'img app \<Rightarrow> 'img app" where
  "update_frame_count s = s\<lparr>frame_count_label := ''Frames Sent: '' @ str_nat (frame_count s)\<rparr>"

definition update_results :: "string \<Rightarrow> bool \<Rightarrow> string \<Rightarrow> 'img app \<Rightarrow> 'img app" where
  "update_results text do_append target_tab s =
     (if target_tab = ''analysis'' then
        (if do_append then s\<lparr>analysis_text := analysis_text s @ text @ NL\<rparr>
         else s\<lparr>analysis_text := text @ NL\<rparr>)
      else if target_tab = ''coords'' then s\<lparr>coords_status_label := text\<rparr>
      else s)"

definition update_button_states :: "'img app \<Rightarrow> 'img app" where
  "update_button_states s =
     (case state s of
        IDLE \<Rightarrow> s\<lparr>start_button := (True, snd (start_button s)),
                  pause_resume_button := (False, ''Pause''),
                  stop_button := (False, snd (stop_button s)),
                  clear_button := (chat_session s \<noteq> None, snd (clear_button s))\<rparr>
      | RECORDING \<Rightarrow> s\<lparr>start_button := (False, snd (start_button s)),
                  pause_resume_button := (True, ''Pause''),
                  stop_button := (True, snd (stop_button s)),
                  clear_button := (False, snd (clear_button s))\<rparr>
      | PAUSED \<Rightarrow> s\<lparr>start_button := (False, snd (start_button s)),
                  pause_resume_button := (True, ''Resume''),
                  stop_button := (True, snd (stop_button s)),
                  clear_button := (False, snd (clear_button s))\<rparr>
      | ANALYZING \<Rightarrow> s\<lparr>start_button := (False, snd (start_button s)),
                  pause_resume_button := (False, snd (pause_resume_button s)),
                  stop_button := (False, ''Analyzing...''),
                  clear_button := (False, snd (clear_button s))\<rparr>)"

text \<open>The map widget: \<open>delete_all_marker\<close>, \<open>set_marker\<close>, \<open>set_position\<close>, \<open>set_zoom\<close>.\<close>

definition delete_all_marker :: "'img app \<Rightarrow> 'img app" where
  "delete_all_marker s = s\<lparr>map_markers := []\<rparr>"

definition set_marker :: "pyfloat \<Rightarrow> pyfloat \<Rightarrow> string \<Rightarrow> 'img app \<Rightarrow> 'img app" where
  "set_marker lat lon text s = s\<lparr>map_markers := map_markers s @ [(lat, lon, text)]\<rparr>"

definition set_position :: "pyfloat \<Rightarrow> pyfloat \<Rightarrow> 'img app \<Rightarrow> 'img app" where
  "set_position lat lon s = s\<lparr>map_position := (lat, lon)\<rparr>"

definition set_zoom :: "nat \<Rightarrow> 'img app \<Rightarrow> 'img app" where
  "set_zoom z s = s\<lparr>map_zoom := z\<rparr>"

text \<open>The Tk timer: \<open>root.after(FRAME_INTERVAL_MS, f)\<close> and \<open>root.after_cancel(id)\<close>.\<close>

definition after_cancel :: "nat \<Rightarrow> 'img app \<Rightarrow> 'img app" where
  "after_cancel j s = s\<lparr>timers := removeAll j (timers s)\<rparr>"

subsection \<open>The object after \<open>__init__\<close>\<close>

definition instructions :: string where
  "instructions =
     ''Instructions:'' @ NL
     @ ''1. Click '' @ QUOTE @ ''Start Session'' @ QUOTE @ '' to begin.'' @ NL
     @ ''2. The app will capture screen frames periodically.'' @ NL
     @ ''3. Use '' @ QUOTE @ ''Pause'' @ QUOTE @ ''/'' @ QUOTE @ ''Resume'' @ QUOTE
     @ '' as needed.'' @ NL
     @ ''4. Click '' @ QUOTE @ ''Stop & Analyze'' @ QUOTE @ '' for the final location guess.'' @ NL
     @ ''5. '' @ QUOTE @ ''Clear History'' @ QUOTE
     @ '' starts a completely new location analysis.'' @ NL"

definition init_app :: "'img app" where
  "init_app = update_button_states
     \<lparr>chat_session = None,
      captured_frames = [],
      state = IDLE,
      frame_sender_job_id = None,
      frame_count = 0,
      start_button = (True, ''Start Session''),
      pause_resume_button = (False, ''Pause''),
      stop_button = (False, ''Stop & Analyze''),
      clear_button = (True, ''Clear History''),
      status_label = (''Status: IDLE'', ''blue''),
      frame_count_label = ''Frames Sent: 0'',
      analysis_text = instructions,
      coords_status_label = ''Coordinates will be plotted here after analysis.'',
      map_markers = [],
      map_position = (FloatOfInt 0, FloatOfInt 0),
      map_zoom = 1,
      timers = [],
      next_job = 0,
      sessions_started = 0,
      client_calls = [],
      warnings = []\<rparr>"

subsection \<open>Commands\<close>

definition schedule_next_frame :: "'img app \<Rightarrow> 'img app" where
  "schedule_next_frame s =
     (if state s = RECORDING then
        s\<lparr>frame_sender_job_id := Some (next_job s),
          timers := timers s @ [next_job s],
          next_job := Suc (next_job s)\<rparr>
      else s)"

definition start_session :: "'img app \<Rightarrow> 'img app" where
  "start_session s =
     (let s1 =
        (if chat_session s = None then
           update_frame_count
             ((update_results ''Starting new session...'' False ''analysis'' s)
                \<lparr>chat_session := Some (sessions_started s),
                 sessions_started := Suc (sessions_started s),
                 captured_frames := [],
                 frame_count := 0\<rparr>)
         else update_results ''Resuming session...'' False ''analysis'' s);
        s2 = update_button_states (update_status ''RECORDING'' ''red'' (s1\<lparr>state := RECORDING\<rparr>))
      in schedule_next_frame s2)"

definition cancel_frame_sender :: "'img app \<Rightarrow> 'img app" where
  "cancel_frame_sender s =
     (case frame_sender_job_id s of
        Some j \<Rightarrow> (after_cancel j s)\<lparr>frame_sender_job_id := None\<rparr>
      | None \<Rightarrow> s)"

definition toggle_pause_resume :: "'img app \<Rightarrow> 'img app" where
  "toggle_pause_resume s =
     update_button_states
       (if state s = RECORDING then
          cancel_frame_sender (update_status ''PAUSED'' ''orange'' (s\<lparr>state := PAUSED\<rparr>))
        else if state s = PAUSED then
          schedule_next_frame (update_status ''RECORDING'' ''red'' (s\<lparr>state := RECORDING\<rparr>))
        else s)"

text \<open>
  \<open>send_frame_task\<close>, the timer's callback. The thread it starts is the function
  \<open>send_frame_worker\<close> below.
\<close>

definition send_frame_task :: "'img app \<Rightarrow> 'img app" where
  "send_frame_task s = (if state s \<noteq> RECORDING then s else schedule_next_frame s)"

text \<open>
  \<open>stop_and_analyze\<close>, up to the start of the thread that runs
  \<open>final_analysis_worker\<close>.
\<close>

definition stop_and_analyze :: "'img app \<Rightarrow> 'img app" where
  "stop_and_analyze s =
     (if state s \<noteq> RECORDING \<and> state s \<noteq> PAUSED then s
      else
        (let s1 = update_status ''ANALYZING'' ''purple'' (s\<lparr>state := ANALYZING\<rparr>);
             s2 = s1\<lparr>stop_button := (fst (stop_button s1), ''Analyzing...'')\<rparr>
         in cancel_frame_sender (update_button_states s2)))"

definition finalize_analysis_ui :: "'img app \<Rightarrow> 'img app" where
  "finalize_analysis_ui s =
     (let s1 = update_status ''IDLE'' ''blue'' (s\<lparr>state := IDLE\<rparr>);
          s2 = s1\<lparr>stop_button := (fst (stop_button s1), ''Stop & Analyze'')\<rparr>
      in update_button_states s2)"

definition clear_history :: "'img app \<Rightarrow> 'img app" where
  "clear_history s =
     (if state s \<noteq> IDLE \<and> state s \<noteq> ANALYZING then
        s\<lparr>warnings := warnings s
             @ [(''Clear History'', ''Stop the current session before clearing history.'')]\<rparr>
      else
        (let s1 = cancel_frame_sender s;
             s2 = update_frame_count
                    (s1\<lparr>chat_session := None, captured_frames := [], frame_count := 0\<rparr>);
             s3 = update_status ''IDLE'' ''blue'' (s2\<lparr>state := IDLE\<rparr>);
             s4 = update_results ''History cleared. Ready for a new session.'' False
                    ''analysis'' s3;
             s5 = update_results ''Coordinates will be plotted here after analysis.'' False
                    ''coords'' (delete_all_marker s4);
             s6 = set_zoom 1 (set_position (FloatOfInt 0) (FloatOfInt 0) s5)
         in update_button_states s6))"

subsection \<open>Background units and the callbacks they post\<close>

type_synonym 'img callback = "'img app \<Rightarrow> 'img app"

text \<open>
  A unit yields the record as its own statements leave it and the callbacks it passed to
  \<open>root.after(0, ...)\<close>. The loop then runs the callbacks in the order of posting; an
  exception that leaves a callback ends that callback only.
\<close>

definition run_callbacks :: "'img callback list \<Rightarrow> 'img app \<Rightarrow> 'img app" where
  "run_callbacks cbs s = fold (\<lambda>cb t. cb t) cbs s"

definition run_unit :: "'img app \<times> 'img callback list \<Rightarrow> 'img app" where
  "run_unit u = run_callbacks (snd u) (fst u)"

text \<open>
  The statements of \<open>_send_frame_worker\<close> that follow the return of \<open>send_message\<close>:
  the append of the frame, and then the increment of the counter with the posting of the
  refresh. They are two statements of the worker thread, and nothing keeps another thread
  from running between them.
\<close>

definition append_frame :: "'img \<Rightarrow> 'img app \<Rightarrow> 'img app" where
  "append_frame img s = s\<lparr>captured_frames := captured_frames s @ [img]\<rparr>"

definition count_frame :: "'img app \<Rightarrow> 'img app \<times> 'img callback list" where
  "count_frame s = (s\<lparr>frame_count := Suc (frame_count s)\<rparr>, [update_frame_count])"

definition frame_sent :: "'img \<Rightarrow> 'img app \<Rightarrow> 'img app \<times> 'img callback list" where
  "frame_sent img s = count_frame (append_frame img s)"

text \<open>
  \<open>_send_frame_worker\<close>. \<open>captured\<close> is what \<open>capture_screen_to_image\<close> returns (\<open>None\<close>
  when the capture fails); \<open>reply\<close> is what \<open>send_message\<close> does: \<open>Inr\<close> the response,
  \<open>Inl\<close> the text of the exception raised.
\<close>

definition send_frame_worker ::
  "'img option \<Rightarrow> string + string \<Rightarrow> 'img app \<Rightarrow> 'img app \<times> 'img callback list" where
  "send_frame_worker captured reply s =
     (if state s = RECORDING then
        (case chat_session s of
           None \<Rightarrow> (s, [])
         | Some session \<Rightarrow>
             (case captured of
                None \<Rightarrow> (s, [])
              | Some img \<Rightarrow>
                  (let s1 = s\<lparr>client_calls := client_calls s @ [(session, FrameTurn img)]\<rparr>
                   in case reply of
                        Inr response \<Rightarrow> frame_sent img s1
                      | Inl e \<Rightarrow> (s1, []))))
      else (s, []))"

subsection \<open>Plotting the decoded records\<close>

text \<open>
  The body of the \<open>try\<close> up to \<open>rank = i + 1\<close>: both coordinates of one record, or the
  exception raised on the way.
\<close>

definition marker_coords :: "(string \<Rightarrow> bool) \<Rightarrow> json \<Rightarrow> pyexc + pyfloat \<times> pyfloat" where
  "marker_coords spells item =
     (case py_get item ''latitude'' of
        Inl e \<Rightarrow> Inl e
      | Inr a \<Rightarrow>
          (case py_float spells a of
             Inl e \<Rightarrow> Inl e
           | Inr lat \<Rightarrow>
               (case py_get item ''longitude'' of
                  Inl e \<Rightarrow> Inl e
                | Inr b \<Rightarrow>
                    (case py_float spells b of
                       Inl e \<Rightarrow> Inl e
                     | Inr lon \<Rightarrow> Inr (lat, lon)))))"

text \<open>\<open>except (ValueError, TypeError, AttributeError)\<close>.\<close>

fun caught :: "pyexc \<Rightarrow> bool" where
  "caught ValueError = True"
| "caught TypeError = True"
| "caught AttributeError = True"
| "caught OverflowError = False"

text \<open>
  The loop \<open>for i, item in enumerate(data)\<close> from index \<open>i\<close> on, with the locals
  \<open>plotted_count\<close> and \<open>first_marker\<close>. \<open>Inr\<close> is the normal end with the count;
  \<open>Inl\<close> is an exception that the handler does not catch, with the record as the loop
  left it.
\<close>

fun plot_loop ::
  "(string \<Rightarrow> bool) \<Rightarrow> nat \<Rightarrow> json list \<Rightarrow> nat \<Rightarrow> bool \<Rightarrow> 'img app
     \<Rightarrow> pyexc \<times> 'img app + nat \<times> 'img app" where
  "plot_loop spells i [] plotted_count first_marker s = Inr (plotted_count, s)"
| "plot_loop spells i (item # rest) plotted_count first_marker s =
     (case marker_coords spells item of
        Inr (lat, lon) \<Rightarrow>
          (let rank = i + 1;
               s1 = set_marker lat lon (str_nat rank) s;
               s2 = (if first_marker then set_zoom 10 (set_position lat lon s1) else s1)
           in plot_loop spells (Suc i) rest (plotted_count + 1) False s2)
      | Inl e \<Rightarrow>
          (if caught e then plot_loop spells (Suc i) rest plotted_count first_marker s
           else Inl (e, s)))"

text \<open>
  \<open>isinstance(data, list)\<close>, with the elements. In \<open>plot_markers_on_map\<close> below, the
  flag \<open>markers_plotted\<close> is left out: the source sets it and never reads it. An exception
  that leaves the loop leaves the callback; the record stays as the loop left it.
\<close>

fun list_items :: "json \<Rightarrow> json list option" where
  "list_items (JArr items) = Some items"
| "list_items _ = None"

definition plot_markers_on_map :: "(string \<Rightarrow> bool) \<Rightarrow> json \<Rightarrow> 'img callback" where
  "plot_markers_on_map spells data s =
     (let s0 = delete_all_marker s;
          not_a_list = update_results ''Parsed JSON coordinate data is empty or not a list.''
                         False ''coords'' s0
      in case list_items data of
           None \<Rightarrow> not_a_list
         | Some items \<Rightarrow>
             (if items = [] then not_a_list
              else
                (case plot_loop spells 0 items 0 True s0 of
                   Inl (e, s1) \<Rightarrow> s1
                 | Inr (plotted_count, s1) \<Rightarrow>
                     (if plotted_count > 0 then
                        update_results
                          (''Plotted '' @ str_nat plotted_count @ '' potential locations (ranked).'')
                          False ''coords'' s1
                      else
                        update_results ''Parsed JSON, but no valid coordinates to plot.''
                          False ''coords'' s1))))"

subsection \<open>The final analysis\<close>

definition json_start_marker :: string where
  "json_start_marker = ''<<<JSON_START>>>''"

definition json_end_marker :: string where
  "json_end_marker = ''<<<JSON_END>>>''"

text \<open>
  The two callbacks of the handler \<open>except Exception as e\<close> of
  \<open>_final_analysis_worker\<close>. The first shows \<open>error_message\<close>, which the handler has
  built. The second is \<open>lambda: self.update_results(f"Analysis Error: {e}", ...)\<close>: it
  reads \<open>e\<close> when the loop runs it, after the \<open>except\<close> clause has ended and unbound
  \<open>e\<close>, so it raises \<open>NameError\<close> and the coordinates label stays as it was.
\<close>

definition analysis_error_on_coords :: "'img callback" where
  "analysis_error_on_coords s = s"

definition analysis_error :: "string \<Rightarrow> 'img callback list" where
  "analysis_error e =
     [update_results (NL @ ''--- ANALYSIS ERROR ---'' @ NL @ e) True ''analysis'',
      analysis_error_on_coords]"

text \<open>
  The parsing of the reply in \<open>_final_analysis_worker\<close>, from
  \<open>analysis_part = full_text\<close> to the update of the Analysis tab. \<open>loads\<close> is
  \<open>json.loads\<close>. \<open>Inr\<close> is the normal end with the callbacks posted; \<open>Inl\<close> is an
  exception that leaves for the handler \<open>except Exception as e\<close>, before anything was
  posted.
\<close>

definition parse_reply ::
  "(string \<Rightarrow> decoded) \<Rightarrow> (string \<Rightarrow> bool) \<Rightarrow> string \<Rightarrow> string + 'img callback list" where
  "parse_reply loads spells full_text =
     (let start_index = find full_text json_start_marker;
          end_index = find full_text json_end_marker
      in if start_index \<noteq> - 1 \<and> end_index \<noteq> - 1 \<and> start_index < end_index then
           (let analysis_part = strip (slice_to full_text start_index);
                json_string =
                  strip (slice full_text (start_index + int (length json_start_marker)) end_index)
            in case loads json_string of
                 Decoded coordinate_data \<Rightarrow>
                   Inr [plot_markers_on_map spells coordinate_data,
                        update_results analysis_part False ''analysis'']
               | JSONDecodeError json_err \<Rightarrow>
                   Inr [update_results
                          (''Error parsing JSON block: '' @ json_err @ NL @ ''Raw JSON:'' @ NL
                           @ json_string)
                          False ''coords'',
                        update_results analysis_part False ''analysis'']
               | Raised e \<Rightarrow> Inl e)
         else
           Inr [update_results
                  (''Warning: JSON markers not found.'' @ NL @ ''Full response in Analysis tab.'')
                  False ''coords'',
                update_results full_text False ''analysis''])"

text \<open>
  The first callback of a final analysis that passes its checks; it reads the number of
  frames when it runs.
\<close>

definition sending_notice :: "'img callback" where
  "sending_notice s =
     update_results
       (NL @ ''Sending '' @ str_nat (length (captured_frames s))
        @ '' captured frames and requesting final analysis...'')
       True ''analysis'' s"

text \<open>
  The callbacks that \<open>_final_analysis_worker\<close> posts once \<open>send_message(...).text\<close> has
  returned or raised: \<open>reply\<close> is \<open>Inr\<close> the full text or \<open>Inl\<close> the text of the
  exception. The last one comes from the \<open>finally\<close> clause.
\<close>

definition analysis_replied ::
  "(string \<Rightarrow> decoded) \<Rightarrow> (string \<Rightarrow> bool) \<Rightarrow> string + string \<Rightarrow> 'img callback list" where
  "analysis_replied loads spells reply =
     (case reply of
        Inr full_text \<Rightarrow>
          (case parse_reply loads spells full_text of
             Inr posted \<Rightarrow> posted
           | Inl e \<Rightarrow> analysis_error e)
      | Inl e \<Rightarrow> analysis_error e)
     @ [finalize_analysis_ui]"

text \<open>
  \<open>_final_analysis_worker\<close>, with the two checks, the callbacks posted before the send,
  and the send.
\<close>

definition final_analysis_worker ::
  "(string \<Rightarrow> decoded) \<Rightarrow> (string \<Rightarrow> bool) \<Rightarrow> string + string \<Rightarrow> 'img app
     \<Rightarrow> 'img app \<times> 'img callback list" where
  "final_analysis_worker loads spells reply s =
     (case chat_session s of
        None \<Rightarrow>
          (s, [update_results ''Error: No active session to analyze.'' False ''analysis'',
               update_results ''Error: No active session to analyze.'' False ''coords'',
               finalize_analysis_ui])
      | Some session \<Rightarrow>
          (if captured_frames s = [] then
             (s, [update_results ''Error: No frames were captured during the session.''
                    False ''analysis'',
                  update_results ''Error: No frames were captured during the session.''
                    False ''coords'',
                  finalize_analysis_ui])
           else
             (let announced =
                    [sending_notice,
                     update_results ''Waiting for analysis...'' False ''coords'',
                     delete_all_marker];
                  intro_text =
                    ''Here are '' @ str_nat (length (captured_frames s))
                    @ '' frames captured sequentially during exploration of a location. ''
                    @ ''Please analyze them together with the following request:'';
                  s1 = s\<lparr>client_calls :=
                          client_calls s @ [(session, FinalTurn intro_text (captured_frames s))]\<rparr>
              in (s1, announced @ analysis_replied loads spells reply))))"

subsection \<open>Runs of the controller\<close>

text \<open>
  What can happen to the object: the four commands, a timer job that fires, a
  capture-and-send unit that runs to its end with its posted callback, and a final
  analysis unit that does the same. A send may also return after other events have
  changed the object: \<open>FrameSendReturns\<close> and \<open>AnalysisSendReturns\<close> are the rest of a
  unit from the return of its \<open>send_message\<close> on, run in whatever state the object is
  then. \<open>FrameAppended\<close> and \<open>FrameCounted\<close> are the two statements of that rest of a
  capture-and-send unit as events of their own, so that other events can fall between
  them.
\<close>

datatype 'img event =
    Start
  | TogglePauseResume
  | StopAndAnalyze
  | ClearHistory
  | TimerFires nat
  | FrameWorker "'img option" "string + string"
  | AnalysisWorker "string + string"
  | FrameSendReturns 'img
  | AnalysisSendReturns "string + string"
  | FrameAppended 'img
  | FrameCounted

fun step ::
  "(string \<Rightarrow> decoded) \<Rightarrow> (string \<Rightarrow> bool) \<Rightarrow> 'img event \<Rightarrow> 'img app \<Rightarrow> 'img app" where
  "step loads spells Start s = start_session s"
| "step loads spells TogglePauseResume s = toggle_pause_resume s"
| "step loads spells StopAndAnalyze s = stop_and_analyze s"
| "step loads spells ClearHistory s = clear_history s"
| "step loads spells (TimerFires j) s =
     (if j \<in> set (timers s) then send_frame_task (s\<lparr>timers := removeAll j (timers s)\<rparr>)
      else s)"
| "step loads spells (FrameWorker captured reply) s =
     run_unit (send_frame_worker captured reply s)"
| "step loads spells (AnalysisWorker reply) s =
     run_unit (final_analysis_worker loads spells reply s)"
| "step loads spells (FrameSendReturns img) s = run_unit (frame_sent img s)"
| "step loads spells (AnalysisSendReturns reply) s =
     run_callbacks (analysis_replied loads spells reply) s"
| "step loads spells (FrameAppended img) s = append_frame img s"
| "step loads spells FrameCounted s = run_unit (count_frame s)"

definition run ::
  "(string \<Rightarrow> decoded) \<Rightarrow> (string \<Rightarrow> bool) \<Rightarrow> 'img event list \<Rightarrow> 'img app \<Rightarrow> 'img app" where
  "run loads spells evs s = fold (step loads spells) evs s"


subsection \<open>The markers a record list asks for\<close>

text \<open>
  The reading of a record list that the plotting is compared with: the records from rank
  \<open>i + 1\<close> on, each with both coordinates coercible giving one marker labelled with its
  rank in the list, every other record giving none.
\<close>

fun ranked_markers :: "(string \<Rightarrow> bool) \<Rightarrow> nat \<Rightarrow> json list \<Rightarrow> marker list" where
  "ranked_markers spells i [] = []"
| "ranked_markers spells i (item # rest) =
     (case marker_coords spells item of
        Inr (lat, lon) \<Rightarrow> (lat, lon, str_nat (i + 1)) # ranked_markers spells (Suc i) rest
      | Inl e \<Rightarrow> ranked_markers spells (Suc i) rest)"

subsection \<open>Example inputs\<close>

abbreviation DQ :: string where
  "DQ \<equiv> [CHR 0x22]"

text \<open>
  A reply in the requested format with two records, and what \<open>json.loads\<close> returns on its
  payload.
\<close>

definition example_payload :: string where
  "example_payload =
     ''[{'' @ DQ @ ''latitude'' @ DQ @ '': 48.8584, '' @ DQ @ ''longitude'' @ DQ @ '': 2.2945, ''
     @ DQ @ ''radius_km'' @ DQ @ '': 1.0, '' @ DQ @ ''confidence'' @ DQ @ '': '' @ DQ @ ''High'' @ DQ
     @ '', '' @ DQ @ ''reason'' @ DQ @ '': '' @ DQ @ ''Eiffel Tower'' @ DQ @ ''}, ''
     @ ''{'' @ DQ @ ''latitude'' @ DQ @ '': 51, '' @ DQ @ ''longitude'' @ DQ @ '': 0, ''
     @ DQ @ ''radius_km'' @ DQ @ '': 5.0, '' @ DQ @ ''confidence'' @ DQ @ '': '' @ DQ @ ''Medium'' @ DQ
     @ '', '' @ DQ @ ''reason'' @ DQ @ '': '' @ DQ @ ''Red buses'' @ DQ @ ''}]''"

definition example_records :: "json list" where
  "example_records =
     [JObj [(''latitude'', JFloat (FloatOfStr ''48.8584'')),
            (''longitude'', JFloat (FloatOfStr ''2.2945'')),
            (''radius_km'', JFloat (FloatOfStr ''1.0'')),
            (''confidence'', JStr ''High''),
            (''reason'', JStr ''Eiffel Tower'')],
      JObj [(''latitude'', JInt 51),
            (''longitude'', JInt 0),
            (''radius_km'', JFloat (FloatOfStr ''5.0'')),
            (''confidence'', JStr ''Medium''),
            (''reason'', JStr ''Red buses'')]]"

definition example_reply :: string where
  "example_reply =
     ''Most likely Paris, France.'' @ NL @ ''<<<JSON_START>>>'' @ NL @ example_payload @ NL
     @ ''<<<JSON_END>>>''"

text \<open>A reply whose payload is cut off, and a reply without the end delimiter.\<close>

definition truncated_reply :: string where
  "truncated_reply = ''Somewhere in Europe. <<<JSON_START>>> [{ <<<JSON_END>>>''"

definition open_reply :: string where
  "open_reply = ''Somewhere in Europe. <<<JSON_START>>> []''"

text \<open>
  A reply whose payload is 1100 opening brackets: \<open>json.loads\<close> gives up on the nesting
  with a \<open>RecursionError\<close>.
\<close>

definition deep_payload :: string where
  "deep_payload = replicate 1100 (CHR ''['')"

definition deep_reply :: string where
  "deep_reply = ''Somewhere in Europe. <<<JSON_START>>> '' @ deep_payload @ '' <<<JSON_END>>>''"

text \<open>
  \<open>json.loads\<close> on the payloads of the examples; \<open>float\<close> on the strings of the examples.
\<close>

definition example_loads :: "string \<Rightarrow> decoded" where
  "example_loads t =
     (if t = example_payload then Decoded (JArr example_records)
      else if t = ''[]'' then Decoded (JArr [])
      else if t = ''[{'' then
        JSONDecodeError
          ''Expecting property name enclosed in double quotes: line 1 column 3 (char 2)''
      else if t = deep_payload then
        Raised
          ''maximum recursion depth exceeded while decoding a JSON array from a unicode string''
      else JSONDecodeError ''Expecting value: line 1 column 1 (char 0)'')"

definition example_spells :: "string \<Rightarrow> bool" where
  "example_spells t = (t = ''2.2945'')"

text \<open>
  Runs from the object after \<open>__init__\<close>: a session that records; the same with one frame
  sent and a stop requested; the same with the final analysis ended by an exception of
  the client.
\<close>

definition recording_example :: "nat app" where
  "recording_example = run example_loads example_spells [Start] init_app"

definition analyzing_example :: "nat app" where
  "analyzing_example =
     run example_loads example_spells
       [Start, FrameWorker (Some 7) (Inr ''a street sign''), StopAndAnalyze] init_app"

definition idle_example :: "nat app" where
  "idle_example =
     run example_loads example_spells
       [Start, FrameWorker (Some 7) (Inr ''a street sign''), StopAndAnalyze,
        AnalysisWorker (Inl ''quota exceeded'')] init_app"

text \<open>
  Three decoded records, the second with an integer latitude beyond the range of a
  \<open>float\<close>.
\<close>

definition overflow_records :: "json list" where
  "overflow_records =
     [JObj [(''latitude'', JInt 48), (''longitude'', JInt 2)],
      JObj [(''latitude'', JInt (10 ^ 400)), (''longitude'', JInt 0)],
      JObj [(''latitude'', JInt 51), (''longitude'', JInt 0)]]"

section \<open>Properties\<close>

subsection \<open>What the presenter updates leave alone\<close>

lemmas ui_defs = update_status_def update_frame_count_def update_results_def
  update_button_states_def delete_all_marker_def set_marker_def set_position_def set_zoom_def
  after_cancel_def cancel_frame_sender_def schedule_next_frame_def

lemmas frame_sent_defs = frame_sent_def append_frame_def count_frame_def

lemmas eval_defs = run_def init_app_def start_session_def stop_and_analyze_def
  toggle_pause_resume_def send_frame_task_def finalize_analysis_ui_def
  send_frame_worker_def frame_sent_defs final_analysis_worker_def analysis_replied_def
  analysis_error_def analysis_error_on_coords_def sending_notice_def
  run_unit_def run_callbacks_def clear_history_def ui_defs Let_def str_nat.simps

lemma update_status_keeps [simp]:
  "chat_session (update_status t c s) = chat_session s"
  "captured_frames (update_status t c s) = captured_frames s"
  "frame_count (update_status t c s) = frame_count s"
  "state (update_status t c s) = state s"
  "client_calls (update_status t c s) = client_calls s"
  "map_markers (update_status t c s) = map_markers s"
  "analysis_text (update_status t c s) = analysis_text s"
  "coords_status_label (update_status t c s) = coords_status_label s"
  by (simp_all add: update_status_def)

lemma update_frame_count_keeps [simp]:
  "chat_session (update_frame_count s) = chat_session s"
  "captured_frames (update_frame_count s) = captured_frames s"
  "frame_count (update_frame_count s) = frame_count s"
  "state (update_frame_count s) = state s"
  "client_calls (update_frame_count s) = client_calls s"
  "map_markers (update_frame_count s) = map_markers s"
  "analysis_text (update_frame_count s) = analysis_text s"
  "coords_status_label (update_frame_count s) = coords_status_label s"
  by (simp_all add: update_frame_count_def)

lemma update_results_keeps [simp]:
  "chat_session (update_results t a tab s) = chat_session s"
  "captured_frames (update_results t a tab s) = captured_frames s"
  "frame_count (update_results t a tab s) = frame_count s"
  "state (update_results t a tab s) = state s"
  "client_calls (update_results t a tab s) = client_calls s"
  "map_markers (update_results t a tab s) = map_markers s"
  by (simp_all add: update_results_def)

lemma update_results_analysis [simp]:
  "analysis_text (update_results t False ''analysis'' s) = t @ NL"
  "analysis_text (update_results t True ''analysis'' s) = analysis_text s @ t @ NL"
  "coords_status_label (update_results t a ''analysis'' s) = coords_status_label s"
  by (simp_all add: update_results_def)

lemma update_results_coords [simp]:
  "coords_status_label (update_results t a ''coords'' s) = t"
  "analysis_text (update_results t a ''coords'' s) = analysis_text s"
  by (simp_all add: update_results_def)

lemma update_button_states_keeps [simp]:
  "chat_session (update_button_states s) = chat_session s"
  "captured_frames (update_button_states s) = captured_frames s"
  "frame_count (update_button_states s) = frame_count s"
  "state (update_button_states s) = state s"
  "client_calls (update_button_states s) = client_calls s"
  "map_markers (update_button_states s) = map_markers s"
  "analysis_text (update_button_states s) = analysis_text s"
  "coords_status_label (update_button_states s) = coords_status_label s"
  by (simp_all add: update_button_states_def split: state_flag.splits)

lemma delete_all_marker_keeps [simp]:
  "chat_session (delete_all_marker s) = chat_session s"
  "captured_frames (delete_all_marker s) = captured_frames s"
  "frame_count (delete_all_marker s) = frame_count s"
  "state (delete_all_marker s) = state s"
  "client_calls (delete_all_marker s) = client_calls s"
  "map_markers (delete_all_marker s) = []"
  "analysis_text (delete_all_marker s) = analysis_text s"
  "coords_status_label (delete_all_marker s) = coords_status_label s"
  "map_position (delete_all_marker s) = map_position s"
  "map_zoom (delete_all_marker s) = map_zoom s"
  by (simp_all add: delete_all_marker_def)

lemma set_marker_keeps [simp]:
  "chat_session (set_marker lat lon t s) = chat_session s"
  "captured_frames (set_marker lat lon t s) = captured_frames s"
  "frame_count (set_marker lat lon t s) = frame_count s"
  "state (set_marker lat lon t s) = state s"
  "client_calls (set_marker lat lon t s) = client_calls s"
  "map_markers (set_marker lat lon t s) = map_markers s @ [(lat, lon, t)]"
  "analysis_text (set_marker lat lon t s) = analysis_text s"
  "coords_status_label (set_marker lat lon t s) = coords_status_label s"
  by (simp_all add: set_marker_def)

lemma set_position_keeps [simp]:
  "chat_session (set_position lat lon s) = chat_session s"
  "captured_frames (set_position lat lon s) = captured_frames s"
  "frame_count (set_position lat lon s) = frame_count s"
  "state (set_position lat lon s) = state s"
  "client_calls (set_position lat lon s) = client_calls s"
  "map_markers (set_position lat lon s) = map_markers s"
  "analysis_text (set_position lat lon s) = analysis_text s"
  "coords_status_label (set_position lat lon s) = coords_status_label s"
  "map_position (set_position lat lon s) = (lat, lon)"
  "map_zoom (set_position lat lon s) = map_zoom s"
  by (simp_all add: set_position_def)

lemma set_zoom_keeps [simp]:
  "chat_session (set_zoom z s) = chat_session s"
  "captured_frames (set_zoom z s) = captured_frames s"
  "frame_count (set_zoom z s) = frame_count s"
  "state (set_zoom z s) = state s"
  "client_calls (set_zoom z s) = client_calls s"
  "map_markers (set_zoom z s) = map_markers s"
  "analysis_text (set_zoom z s) = analysis_text s"
  "coords_status_label (set_zoom z s) = coords_status_label s"
  "map_position (set_zoom z s) = map_position s"
  "map_zoom (set_zoom z s) = z"
  by (simp_all add: set_zoom_def)

lemma cancel_frame_sender_keeps [simp]:
  "chat_session (cancel_frame_sender s) = chat_session s"
  "captured_frames (cancel_frame_sender s) = captured_frames s"
  "frame_count (cancel_frame_sender s) = frame_count s"
  "state (cancel_frame_sender s) = state s"
  "client_calls (cancel_frame_sender s) = client_calls s"
  by (simp_all add: cancel_frame_sender_def after_cancel_def split: option.splits)

lemma schedule_next_frame_keeps [simp]:
  "chat_session (schedule_next_frame s) = chat_session s"
  "captured_frames (schedule_next_frame s) = captured_frames s"
  "frame_count (schedule_next_frame s) = frame_count s"
  "state (schedule_next_frame s) = state s"
  "client_calls (schedule_next_frame s) = client_calls s"
  by (simp_all add: schedule_next_frame_def)

lemma finalize_analysis_ui_keeps [simp]:
  "chat_session (finalize_analysis_ui s) = chat_session s"
  "captured_frames (finalize_analysis_ui s) = captured_frames s"
  "frame_count (finalize_analysis_ui s) = frame_count s"
  "state (finalize_analysis_ui s) = IDLE"
  "client_calls (finalize_analysis_ui s) = client_calls s"
  "map_markers (finalize_analysis_ui s) = map_markers s"
  "analysis_text (finalize_analysis_ui s) = analysis_text s"
  "coords_status_label (finalize_analysis_ui s) = coords_status_label s"
  by (simp_all add: finalize_analysis_ui_def Let_def)

lemma sending_notice_keeps [simp]:
  "chat_session (sending_notice s) = chat_session s"
  "captured_frames (sending_notice s) = captured_frames s"
  "frame_count (sending_notice s) = frame_count s"
  "state (sending_notice s) = state s"
  "client_calls (sending_notice s) = client_calls s"
  "map_markers (sending_notice s) = map_markers s"
  "coords_status_label (sending_notice s) = coords_status_label s"
  by (simp_all add: sending_notice_def)

lemma plot_loop_keeps:
  "plot_loop spells i items n first s = r \<Longrightarrow>
   s' = (case r of Inl (e, t) \<Rightarrow> t | Inr (k, t) \<Rightarrow> t) \<Longrightarrow>
   chat_session s' = chat_session s \<and> captured_frames s' = captured_frames s
   \<and> frame_count s' = frame_count s \<and> state s' = state s
   \<and> client_calls s' = client_calls s \<and> analysis_text s' = analysis_text s
   \<and> coords_status_label s' = coords_status_label s"
proof (induction items arbitrary: i n first s r s')
  case Nil
  then show ?case by auto
next
  case (Cons item rest)
  show ?case
  proof (cases "marker_coords spells item")
    case (Inl e)
    show ?thesis
    proof (cases "caught e")
      case True
      with Inl Cons.prems Cons.IH [of "Suc i" n first s r s'] show ?thesis by simp
    next
      case False
      with Inl Cons.prems show ?thesis by auto
    qed
  next
    case (Inr p)
    obtain lat lon where p: "p = (lat, lon)" by (cases p)
    from Inr p Cons.prems Cons.IH [of "Suc i" "n + 1" False _ r s'] show ?thesis
      by (cases first) (simp_all add: Let_def)
  qed
qed

lemma run_callbacks_Nil [simp]: "run_callbacks [] s = s"
  by (simp add: run_callbacks_def)

lemma run_callbacks_Cons [simp]: "run_callbacks (cb # cbs) s = run_callbacks cbs (cb s)"
  by (simp add: run_callbacks_def)

lemma run_callbacks_append [simp]:
  "run_callbacks (xs @ ys) s = run_callbacks ys (run_callbacks xs s)"
  by (simp add: run_callbacks_def)

lemma plot_loop_keeps_Inr:
  assumes "plot_loop spells i items n first s = Inr (k, t)"
  shows "chat_session t = chat_session s" "captured_frames t = captured_frames s"
    "frame_count t = frame_count s" "state t = state s" "client_calls t = client_calls s"
    "analysis_text t = analysis_text s" "coords_status_label t = coords_status_label s"
  using plot_loop_keeps [OF assms, of t] by simp_all

lemma plot_loop_keeps_Inl:
  assumes "plot_loop spells i items n first s = Inl (e, t)"
  shows "chat_session t = chat_session s" "captured_frames t = captured_frames s"
    "frame_count t = frame_count s" "state t = state s" "client_calls t = client_calls s"
    "analysis_text t = analysis_text s" "coords_status_label t = coords_status_label s"
  using plot_loop_keeps [OF assms, of t] by simp_all

lemma plot_markers_on_map_keeps [simp]:
  "chat_session (plot_markers_on_map spells data s) = chat_session s"
  "captured_frames (plot_markers_on_map spells data s) = captured_frames s"
  "frame_count (plot_markers_on_map spells data s) = frame_count s"
  "state (plot_markers_on_map spells data s) = state s"
  "client_calls (plot_markers_on_map spells data s) = client_calls s"
  "analysis_text (plot_markers_on_map spells data s) = analysis_text s"
  by (auto simp: plot_markers_on_map_def Let_def plot_loop_keeps_Inr plot_loop_keeps_Inl
      split: option.splits sum.splits prod.splits)

lemma analysis_replied_keeps [simp]:
  "chat_session (run_callbacks (analysis_replied loads spells reply) s) = chat_session s"
  "captured_frames (run_callbacks (analysis_replied loads spells reply) s) = captured_frames s"
  "frame_count (run_callbacks (analysis_replied loads spells reply) s) = frame_count s"
  "state (run_callbacks (analysis_replied loads spells reply) s) = IDLE"
  "client_calls (run_callbacks (analysis_replied loads spells reply) s) = client_calls s"
  by (simp_all add: analysis_replied_def analysis_error_def analysis_error_on_coords_def
      parse_reply_def Let_def
      split: sum.splits decoded.splits)

lemma final_analysis_keeps:
  "chat_session (run_unit (final_analysis_worker loads spells reply s)) = chat_session s"
  "captured_frames (run_unit (final_analysis_worker loads spells reply s)) = captured_frames s"
  "frame_count (run_unit (final_analysis_worker loads spells reply s)) = frame_count s"
  "state (run_unit (final_analysis_worker loads spells reply s)) = IDLE"
  by (simp_all add: final_analysis_worker_def run_unit_def Let_def split: option.splits)

lemma recording_example_fields:
  "state recording_example = RECORDING" "chat_session recording_example = Some 0"
  "captured_frames recording_example = []" "frame_count recording_example = 0"
  "client_calls recording_example = []" "warnings recording_example = []"
  by (simp_all add: recording_example_def eval_defs)

lemma analyzing_example_fields:
  "state analyzing_example = ANALYZING" "chat_session analyzing_example = Some 0"
  "captured_frames analyzing_example = [7]" "frame_count analyzing_example = 1"
  "client_calls analyzing_example = [(0, FrameTurn 7)]" "warnings analyzing_example = []"
  by (simp_all add: analyzing_example_def eval_defs)

lemma idle_example_fields:
  "state idle_example = IDLE" "chat_session idle_example = Some 0"
  "captured_frames idle_example = [7]" "frame_count idle_example = 1"
  "warnings idle_example = []"
  by (simp_all add: idle_example_def eval_defs)

subsection \<open>The guard of \<open>clear_history\<close>\<close>

text \<open>
  The Clear History button is enabled only in IDLE with a session handle; what follows is
  about the method that the button calls.
\<close>

lemma clear_button_enabled:
  "fst (clear_button (update_button_states s)) \<longleftrightarrow> state s = IDLE \<and> chat_session s \<noteq> None"
  by (cases "state s") (simp_all add: update_button_states_def)

text \<open>
  C1, as the code has it. In RECORDING and in PAUSED \<open>clear_history\<close> only shows the
  warning: the state, the session handle, the frame sequence and the counter stay as they
  are. In IDLE and also in ANALYZING it goes through: the session handle is dropped, the
  frame sequence is emptied, the counter is 0, the state is IDLE, and no warning is shown.
\<close>

theorem clear_history_guard:
  "(state s = RECORDING \<or> state s = PAUSED \<longrightarrow>
      clear_history s =
        s\<lparr>warnings := warnings s
             @ [(''Clear History'', ''Stop the current session before clearing history.'')]\<rparr>
      \<and> state (clear_history s) = state s
      \<and> chat_session (clear_history s) = chat_session s
      \<and> captured_frames (clear_history s) = captured_frames s
      \<and> frame_count (clear_history s) = frame_count s)
   \<and> (state s = IDLE \<or> state s = ANALYZING \<longrightarrow>
      state (clear_history s) = IDLE
      \<and> chat_session (clear_history s) = None
      \<and> captured_frames (clear_history s) = []
      \<and> frame_count (clear_history s) = 0
      \<and> warnings (clear_history s) = warnings s)"
  by (auto simp: clear_history_def ui_defs Let_def split: option.splits)

theorem clear_history_guard_witness:
  "state recording_example = RECORDING
   \<and> state (clear_history recording_example) = RECORDING
   \<and> chat_session (clear_history recording_example) = Some 0
   \<and> warnings (clear_history recording_example)
       = [(''Clear History'', ''Stop the current session before clearing history.'')]
   \<and> state idle_example = IDLE
   \<and> chat_session idle_example = Some 0
   \<and> captured_frames idle_example = [7]
   \<and> chat_session (clear_history idle_example) = None
   \<and> captured_frames (clear_history idle_example) = []
   \<and> frame_count (clear_history idle_example) = 0"
  using clear_history_guard [of recording_example] clear_history_guard [of idle_example]
  by (simp add: recording_example_fields idle_example_fields)

text \<open>
  C1 as stated fails in ANALYZING: after a start, one frame and a stop request, the state
  is ANALYZING, and \<open>clear_history\<close> is not rejected there. It sets the state to IDLE,
  drops the session handle and the frame, and shows no warning.
\<close>

theorem clear_history_analyzing_counterexample:
  "state analyzing_example = ANALYZING
   \<and> state (clear_history analyzing_example) = IDLE
   \<and> chat_session analyzing_example = Some 0
   \<and> chat_session (clear_history analyzing_example) = None
   \<and> captured_frames analyzing_example = [7]
   \<and> captured_frames (clear_history analyzing_example) = []
   \<and> warnings (clear_history analyzing_example) = warnings analyzing_example"
  by (simp add: analyzing_example_fields clear_history_def ui_defs Let_def
      split: option.splits)

subsection \<open>The frame counter\<close>








subsection \<open>The capture-and-send cycle\<close>

lemma send_failure_calls:
  "\<exists>calls. length calls \<le> 1
     \<and> step loads spells (FrameWorker captured (Inl err)) s
         = s\<lparr>client_calls := client_calls s @ calls\<rparr>"
proof (cases "state s = RECORDING \<and> chat_session s \<noteq> None \<and> captured \<noteq> None")
  case True
  then obtain session img where "chat_session s = Some session" "captured = Some img"
    by auto
  with True have "step loads spells (FrameWorker captured (Inl err)) s
      = s\<lparr>client_calls := client_calls s @ [(session, FrameTurn img)]\<rparr>"
    by (simp add: send_frame_worker_def frame_sent_defs run_unit_def Let_def)
  then show ?thesis
    by (intro exI [of _ "[(session, FrameTurn img)]"]) simp
next
  case False
  then have "step loads spells (FrameWorker captured (Inl err)) s = s"
    by (auto simp: send_frame_worker_def frame_sent_defs run_unit_def split: option.splits)
  then show ?thesis
    by (intro exI [of _ "[]"]) simp
qed

text \<open>
  C7. A cycle that runs in RECORDING with a session, a captured image and a send that
  returns appends that image, adds one to the counter, and has made exactly that one
  call. A cycle whose capture fails changes nothing and sends nothing. A cycle whose send
  raises leaves everything but the log of calls as it was, and the log grows by one call
  at most: the frame is not kept and the send is not repeated. The frame sequence changes
  in a cycle only if an image was captured and the send returned.
\<close>

theorem send_frame_worker_cycle:
  "(state s = RECORDING \<and> chat_session s = Some session \<and> captured = Some img
      \<and> reply = Inr response \<longrightarrow>
      captured_frames (step loads spells (FrameWorker captured reply) s)
        = captured_frames s @ [img]
      \<and> frame_count (step loads spells (FrameWorker captured reply) s) = frame_count s + 1
      \<and> client_calls (step loads spells (FrameWorker captured reply) s)
        = client_calls s @ [(session, FrameTurn img)])
   \<and> (captured = None \<longrightarrow> step loads spells (FrameWorker captured reply) s = s)
   \<and> (reply = Inl err \<longrightarrow>
        (\<exists>calls. length calls \<le> 1
           \<and> step loads spells (FrameWorker captured reply) s
               = s\<lparr>client_calls := client_calls s @ calls\<rparr>))
   \<and> (captured_frames (step loads spells (FrameWorker captured reply) s) \<noteq> captured_frames s
        \<longrightarrow> (\<exists>img response. captured = Some img \<and> reply = Inr response))"
proof (intro conjI impI)
  assume "reply = Inl err"
  then show "\<exists>calls. length calls \<le> 1
      \<and> step loads spells (FrameWorker captured reply) s
          = s\<lparr>client_calls := client_calls s @ calls\<rparr>"
    using send_failure_calls [of loads spells captured err s] by simp
next
  assume changed:
    "captured_frames (step loads spells (FrameWorker captured reply) s) \<noteq> captured_frames s"
  show "\<exists>img response. captured = Some img \<and> reply = Inr response"
  proof (cases captured)
    case None
    with changed show ?thesis
      by (simp add: send_frame_worker_def frame_sent_defs run_unit_def split: option.splits)
  next
    case (Some img)
    show ?thesis
    proof (cases reply)
      case (Inl e)
      with changed Some show ?thesis
        by (simp add: send_frame_worker_def frame_sent_defs run_unit_def Let_def split: option.splits if_splits)
    next
      case (Inr response)
      with Some show ?thesis by simp
    qed
  qed
qed (simp_all add: send_frame_worker_def frame_sent_defs run_unit_def Let_def split: option.splits)

theorem send_frame_worker_cycle_witness:
  "state recording_example = RECORDING \<and> chat_session recording_example = Some 0
   \<and> captured_frames
        (step example_loads example_spells (FrameWorker (Some 7) (Inr ''a street sign''))
           recording_example) = [7]
   \<and> frame_count
        (step example_loads example_spells (FrameWorker (Some 7) (Inr ''a street sign''))
           recording_example) = 1
   \<and> client_calls
        (step example_loads example_spells (FrameWorker (Some 7) (Inr ''a street sign''))
           recording_example) = [(0, FrameTurn 7)]
   \<and> step example_loads example_spells (FrameWorker None (Inr ''a street sign''))
        recording_example = recording_example
   \<and> captured_frames
        (step example_loads example_spells (FrameWorker (Some 7) (Inl ''quota exceeded''))
           recording_example) = []
   \<and> frame_count
        (step example_loads example_spells (FrameWorker (Some 7) (Inl ''quota exceeded''))
           recording_example) = 0"
proof -
  note r = recording_example_fields
  note a = send_frame_worker_cycle
    [of recording_example 0 "Some 7" 7 "Inr ''a street sign''" "''a street sign''"
        example_loads example_spells "[]"]
  note b = send_frame_worker_cycle
    [of recording_example 0 None 7 "Inr ''a street sign''" "''a street sign''"
        example_loads example_spells "[]"]
  note c = send_frame_worker_cycle
    [of recording_example 0 "Some 7" 7 "Inl ''quota exceeded''" "''a street sign''"
        example_loads example_spells "''quota exceeded''"]
  from c obtain calls where
    "step example_loads example_spells (FrameWorker (Some 7) (Inl ''quota exceeded''))
       recording_example
       = recording_example\<lparr>client_calls := client_calls recording_example @ calls\<rparr>"
    by blast
  then have c':
    "captured_frames
       (step example_loads example_spells (FrameWorker (Some 7) (Inl ''quota exceeded''))
          recording_example) = []"
    "frame_count
       (step example_loads example_spells (FrameWorker (Some 7) (Inl ''quota exceeded''))
          recording_example) = 0"
    using r by simp_all
  from a b c' r show ?thesis by simp
qed

subsection \<open>The checks of the final analysis\<close>

text \<open>
  C8. A final analysis that finds no session handle, or a session handle and an empty
  frame sequence, shows its error on the Analysis tab and on the coordinates label,
  returns the state to IDLE, and makes no call to the Session Client.
\<close>

theorem final_analysis_preconditions:
  "(chat_session s = None \<longrightarrow>
      state (step loads spells (AnalysisWorker reply) s) = IDLE
      \<and> analysis_text (step loads spells (AnalysisWorker reply) s)
          = ''Error: No active session to analyze.'' @ NL
      \<and> coords_status_label (step loads spells (AnalysisWorker reply) s)
          = ''Error: No active session to analyze.''
      \<and> client_calls (step loads spells (AnalysisWorker reply) s) = client_calls s)
   \<and> (chat_session s \<noteq> None \<and> captured_frames s = [] \<longrightarrow>
      state (step loads spells (AnalysisWorker reply) s) = IDLE
      \<and> analysis_text (step loads spells (AnalysisWorker reply) s)
          = ''Error: No frames were captured during the session.'' @ NL
      \<and> coords_status_label (step loads spells (AnalysisWorker reply) s)
          = ''Error: No frames were captured during the session.''
      \<and> client_calls (step loads spells (AnalysisWorker reply) s) = client_calls s)"
  by (auto simp: final_analysis_worker_def analysis_replied_def run_unit_def)

theorem final_analysis_preconditions_witness:
  "chat_session (init_app :: nat app) = None
   \<and> state (step example_loads example_spells (AnalysisWorker (Inr example_reply))
               (init_app :: nat app)) = IDLE
   \<and> client_calls (step example_loads example_spells (AnalysisWorker (Inr example_reply))
               (init_app :: nat app)) = []
   \<and> coords_status_label
        (step example_loads example_spells (AnalysisWorker (Inr example_reply))
           (init_app :: nat app))
       = ''Error: No active session to analyze.''
   \<and> chat_session recording_example \<noteq> None \<and> captured_frames recording_example = []
   \<and> state (step example_loads example_spells (AnalysisWorker (Inr example_reply))
               recording_example) = IDLE
   \<and> client_calls (step example_loads example_spells (AnalysisWorker (Inr example_reply))
               recording_example) = []
   \<and> coords_status_label
        (step example_loads example_spells (AnalysisWorker (Inr example_reply))
           recording_example)
       = ''Error: No frames were captured during the session.''"
proof -
  have i: "chat_session (init_app :: nat app) = None" "client_calls (init_app :: nat app) = []"
    by (simp_all add: init_app_def)
  from
    final_analysis_preconditions
      [of "init_app :: nat app" example_loads example_spells "Inr example_reply"]
    final_analysis_preconditions
      [of recording_example example_loads example_spells "Inr example_reply"]
    i recording_example_fields
  show ?thesis by simp
qed

subsection \<open>What a stop retains\<close>

lemma step_keeps_session:
  assumes "e \<noteq> ClearHistory" "chat_session s \<noteq> None"
  shows "chat_session (step loads spells e s) = chat_session s
     \<and> prefix (captured_frames s) (captured_frames (step loads spells e s))"
proof (cases e)
  case Start
  with assms show ?thesis by (simp add: start_session_def Let_def)
next
  case TogglePauseResume
  with assms show ?thesis by (simp add: toggle_pause_resume_def)
next
  case StopAndAnalyze
  with assms show ?thesis by (simp add: stop_and_analyze_def Let_def)
next
  case ClearHistory
  with assms show ?thesis by simp
next
  case (TimerFires j)
  with assms show ?thesis by (simp add: send_frame_task_def)
next
  case (FrameWorker captured reply)
  with assms show ?thesis
    by (simp add: send_frame_worker_def frame_sent_defs run_unit_def Let_def
        split: option.splits sum.splits)
next
  case (AnalysisWorker reply)
  with assms show ?thesis by (simp add: final_analysis_keeps)
next
  case (FrameSendReturns img)
  with assms show ?thesis by (simp add: frame_sent_defs run_unit_def)
next
  case (AnalysisSendReturns reply)
  with assms show ?thesis by simp
next
  case (FrameAppended img)
  with assms show ?thesis by (simp add: append_frame_def)
next
  case FrameCounted
  with assms show ?thesis by (simp add: count_frame_def run_unit_def)
qed

text \<open>
  C9. A stop request from RECORDING or PAUSED sets ANALYZING; when the final analysis has
  completed, whatever the client did, the state is IDLE and the session handle and the
  frame sequence are those from before the stop. The same holds for the part of a final
  analysis that follows its send, in whatever state it runs. From a state with a session
  handle, no step other than \<open>clear_history\<close> drops the handle or any frame already in
  the sequence; \<open>clear_history\<close> in IDLE drops both.
\<close>

theorem stop_retains_session_and_frames:
  "(state s = RECORDING \<or> state s = PAUSED \<longrightarrow>
      state (stop_and_analyze s) = ANALYZING
      \<and> state (run loads spells [StopAndAnalyze, AnalysisWorker reply] s) = IDLE
      \<and> chat_session (run loads spells [StopAndAnalyze, AnalysisWorker reply] s) = chat_session s
      \<and> captured_frames (run loads spells [StopAndAnalyze, AnalysisWorker reply] s)
          = captured_frames s)
   \<and> state (step loads spells (AnalysisSendReturns reply) s) = IDLE
   \<and> chat_session (step loads spells (AnalysisSendReturns reply) s) = chat_session s
   \<and> captured_frames (step loads spells (AnalysisSendReturns reply) s) = captured_frames s
   \<and> (e \<noteq> ClearHistory \<and> chat_session s \<noteq> None \<longrightarrow>
      chat_session (step loads spells e s) = chat_session s
      \<and> prefix (captured_frames s) (captured_frames (step loads spells e s)))
   \<and> (state s = IDLE \<longrightarrow>
      chat_session (step loads spells ClearHistory s) = None
      \<and> captured_frames (step loads spells ClearHistory s) = [])"
proof (intro conjI impI)
  assume "e \<noteq> ClearHistory \<and> chat_session s \<noteq> None"
  then show "chat_session (step loads spells e s) = chat_session s"
    and "prefix (captured_frames s) (captured_frames (step loads spells e s))"
    using step_keeps_session [of e s loads spells] by simp_all
qed (auto simp: run_def final_analysis_keeps stop_and_analyze_def Let_def clear_history_def)

theorem stop_retains_session_and_frames_witness:
  "state recording_example = RECORDING
   \<and> state (run example_loads example_spells
               [StopAndAnalyze, AnalysisWorker (Inr example_reply)] recording_example) = IDLE
   \<and> chat_session (run example_loads example_spells
               [StopAndAnalyze, AnalysisWorker (Inr example_reply)] recording_example) = Some 0
   \<and> captured_frames (run example_loads example_spells
               [StopAndAnalyze, AnalysisWorker (Inr example_reply)] recording_example) = []
   \<and> chat_session (step example_loads example_spells Start idle_example) = Some 0
   \<and> prefix [7] (captured_frames (step example_loads example_spells Start idle_example))
   \<and> state idle_example = IDLE
   \<and> chat_session (step example_loads example_spells ClearHistory idle_example) = None
   \<and> captured_frames (step example_loads example_spells ClearHistory idle_example) = []"
  using
    stop_retains_session_and_frames
      [of recording_example example_loads example_spells "Inr example_reply" Start]
    stop_retains_session_and_frames
      [of idle_example example_loads example_spells "Inr example_reply" Start]
  by (simp add: recording_example_fields idle_example_fields)

subsection \<open>What the background units change themselves\<close>

text \<open>
  C10, as the code has it. Neither background unit writes the state flag, and the final
  analysis unit writes neither the frame sequence nor the counter: its changes reach the
  object through the callbacks it posts. The capture-and-send unit, however, appends the
  frame and increments the counter in its own statements when the send returns; the only
  callback it posts is the refresh of the displayed counter.
\<close>

theorem background_units_direct_effects:
  "state (fst (send_frame_worker captured reply s)) = state s
   \<and> state (fst (final_analysis_worker loads spells reply s)) = state s
   \<and> captured_frames (fst (final_analysis_worker loads spells reply s)) = captured_frames s
   \<and> frame_count (fst (final_analysis_worker loads spells reply s)) = frame_count s
   \<and> (state s = RECORDING \<and> chat_session s = Some session \<and> captured = Some img
        \<and> reply = Inr response \<longrightarrow>
        captured_frames (fst (send_frame_worker captured reply s)) = captured_frames s @ [img]
        \<and> frame_count (fst (send_frame_worker captured reply s)) = frame_count s + 1
        \<and> snd (send_frame_worker captured reply s) = [update_frame_count])"
  by (auto simp: send_frame_worker_def frame_sent_defs final_analysis_worker_def Let_def
      split: option.splits sum.splits)

theorem background_units_direct_effects_witness:
  "state recording_example = RECORDING \<and> chat_session recording_example = Some 0
   \<and> state (fst (send_frame_worker (Some 7) (Inr ''a street sign'') recording_example))
       = RECORDING
   \<and> captured_frames (fst (send_frame_worker (Some 7) (Inr ''a street sign'') recording_example))
       = [7]
   \<and> frame_count (fst (send_frame_worker (Some 7) (Inr ''a street sign'') recording_example))
       = 1
   \<and> snd (send_frame_worker (Some 7) (Inr ''a street sign'') recording_example)
       = [update_frame_count]"
  using background_units_direct_effects
    [of "Some 7" "Inr ''a street sign''" recording_example example_loads example_spells 0 7
        "''a street sign''"]
  by (simp add: recording_example_fields)

text \<open>
  C10 as stated fails: in a recording session the capture-and-send unit has changed the
  frame sequence and the counter by its own statements, before any posted callback runs.
\<close>

theorem background_mutation_counterexample:
  "captured_frames recording_example = []
   \<and> captured_frames (fst (send_frame_worker (Some 7) (Inr ''a street sign'') recording_example))
       = [7]
   \<and> frame_count recording_example = 0
   \<and> frame_count (fst (send_frame_worker (Some 7) (Inr ''a street sign'') recording_example))
       = 1"
  by (simp add: recording_example_fields send_frame_worker_def frame_sent_defs Let_def)

subsection \<open>Locating the delimiters\<close>

lemma find_from_cases:
  "find_from sub s k = - 1 \<or>
   (\<exists>i. find_from sub s k = int (k + i) \<and> prefix sub (drop i s))"
proof (induction s arbitrary: k)
  case Nil
  then show ?case by auto
next
  case (Cons c cs)
  show ?case
  proof (cases "prefix sub (c # cs)")
    case True
    then show ?thesis by (auto intro: exI [of _ 0])
  next
    case False
    from Cons.IH [of "Suc k"] show ?thesis
    proof
      assume "find_from sub cs (Suc k) = - 1"
      with False show ?thesis by simp
    next
      assume "\<exists>i. find_from sub cs (Suc k) = int (Suc k + i) \<and> prefix sub (drop i cs)"
      then obtain i where "find_from sub cs (Suc k) = int (Suc k + i)" "prefix sub (drop i cs)"
        by blast
      with False show ?thesis by (auto intro: exI [of _ "Suc i"])
    qed
  qed
qed

lemma find_occurs:
  assumes "find s sub = int i"
  shows "prefix sub (drop i s)"
proof -
  from find_from_cases [of sub s 0] assms show ?thesis
    by (auto simp: find_def)
qed

lemma markers_apart:
  assumes "prefix json_start_marker (drop i s)" "prefix json_end_marker (drop j s)" "i < j"
  shows "i + 16 \<le> j"
proof (rule ccontr)
  assume "\<not> i + 16 \<le> j"
  with \<open>i < j\<close> obtain k where k: "j = i + k" "0 < k" "k < 16"
    by (metis add_diff_inverse_nat less_imp_add_positive nat_add_left_cancel_less not_le_imp_less order.asym)
  from assms(1) obtain rest where rest: "drop i s = json_start_marker @ rest"
    by (auto simp: prefix_def)
  have "drop j s = drop k (drop i s)" using k by (simp add: add.commute)
  moreover have "length json_start_marker = 16" by (simp add: json_start_marker_def)
  ultimately have "drop j s = drop k json_start_marker @ rest"
    using rest k by simp
  with assms(2) have p: "prefix json_end_marker (drop k json_start_marker @ rest)" by simp
  from k have "k \<in> {1, 2, 3, 4, 5, 6, 7, 8, 9, 10, 11, 12, 13, 14, 15}" by simp arith
  with p show False
    by (auto simp: json_start_marker_def json_end_marker_def)
qed

lemma reply_split:
  assumes "find full_text json_start_marker = int i" "find full_text json_end_marker = int j"
    "i < j"
  shows "full_text = slice_to full_text (int i) @ json_start_marker
           @ slice full_text (int i + int (length json_start_marker)) (int j)
           @ json_end_marker @ drop (j + length json_end_marker) full_text"
proof -
  have a: "prefix json_start_marker (drop i full_text)" using assms(1) by (rule find_occurs)
  have b: "prefix json_end_marker (drop j full_text)" using assms(2) by (rule find_occurs)
  from markers_apart [OF a b assms(3)] have le: "i + 16 \<le> j" .
  from a obtain r1 where r1: "drop i full_text = json_start_marker @ r1"
    by (auto simp: prefix_def)
  from b obtain r2 where r2: "drop j full_text = json_end_marker @ r2"
    by (auto simp: prefix_def)
  have len: "length json_start_marker = 16" "length json_end_marker = 14"
    by (simp_all add: json_start_marker_def json_end_marker_def)
  have d1: "drop (i + 16) full_text = r1"
    using r1 len by (metis add.commute append_eq_conv_conj drop_drop)
  have d2: "drop (j + 14) full_text = r2"
    using r2 len by (metis add.commute append_eq_conv_conj drop_drop)
  have "drop (j - (i + 16)) (drop (i + 16) full_text) = drop j full_text"
    using le by simp
  then have mid: "drop (i + 16) full_text
      = take (j - (i + 16)) (drop (i + 16) full_text) @ json_end_marker @ r2"
    using r2 by (metis append_take_drop_id)
  have "full_text = take i full_text @ drop i full_text" by simp
  also have "\<dots> = take i full_text @ json_start_marker @ drop (i + 16) full_text"
    using r1 d1 by simp
  also have "\<dots> = take i full_text @ json_start_marker
      @ take (j - (i + 16)) (drop (i + 16) full_text) @ json_end_marker @ r2"
    using mid by simp
  finally show ?thesis
    using d2 len by (simp add: slice_to_def slice_def nat_add_distrib)
qed



subsection \<open>Plotting\<close>

lemma caught_iff: "caught e \<longleftrightarrow> e \<noteq> OverflowError"
  by (cases e) simp_all

lemma plot_loop_no_overflow:
  assumes "\<forall>item \<in> set items. marker_coords spells item \<noteq> Inl OverflowError"
  shows "\<exists>t. plot_loop spells i items n first s
               = Inr (n + length (ranked_markers spells i items), t)
           \<and> map_markers t = map_markers s @ ranked_markers spells i items
           \<and> map_position t =
               (case ranked_markers spells i items of
                  [] \<Rightarrow> map_position s
                | (lat, lon, label) # others \<Rightarrow> if first then (lat, lon) else map_position s)
           \<and> map_zoom t =
               (case ranked_markers spells i items of
                  [] \<Rightarrow> map_zoom s
                | m # others \<Rightarrow> if first then 10 else map_zoom s)"
  using assms
proof (induction items arbitrary: i n first s)
  case Nil
  then show ?case by simp
next
  case (Cons item rest)
  then have rest: "\<forall>item \<in> set rest. marker_coords spells item \<noteq> Inl OverflowError"
    by simp
  show ?case
  proof (cases "marker_coords spells item")
    case (Inl e)
    with Cons.prems have "caught e" by (simp add: caught_iff)
    with Inl Cons.IH [OF rest, of "Suc i" n first s] show ?thesis by simp
  next
    case (Inr p)
    obtain lat lon where p: "p = (lat, lon)" by (cases p)
    let ?s1 = "set_marker lat lon (str_nat (i + 1)) s"
    let ?s2 = "if first then set_zoom 10 (set_position lat lon ?s1) else ?s1"
    from Cons.IH [OF rest, of "Suc i" "n + 1" False ?s2]
    obtain t where t: "plot_loop spells (Suc i) rest (n + 1) False ?s2
          = Inr (n + 1 + length (ranked_markers spells (Suc i) rest), t)"
        "map_markers t = map_markers ?s2 @ ranked_markers spells (Suc i) rest"
        "map_position t = map_position ?s2" "map_zoom t = map_zoom ?s2"
      by (auto split: list.splits)
    have "plot_loop spells i (item # rest) n first s
        = plot_loop spells (Suc i) rest (n + 1) False ?s2"
      using Inr p by (simp add: Let_def)
    with t Inr p show ?thesis
      by (cases first) (simp_all add: set_position_def set_zoom_def set_marker_def)
  qed
qed

lemma ranked_markers_all_valid:
  "map (marker_coords spells) items = map Inr coords \<Longrightarrow>
   ranked_markers spells i items
     = map (\<lambda>(k, lat, lon). (lat, lon, str_nat (k + 1))) (enumerate i coords)"
proof (induction items arbitrary: i coords)
  case Nil
  then show ?case by simp
next
  case (Cons item rest)
  then obtain c cs where "coords = c # cs" "marker_coords spells item = Inr c"
    "map (marker_coords spells) rest = map Inr cs"
    by (cases coords) auto
  with Cons.IH [of cs "Suc i"] show ?case by (cases c) simp
qed

lemma plot_markers_no_overflow:
  assumes "\<forall>item \<in> set items. marker_coords spells item \<noteq> Inl OverflowError"
    and "items \<noteq> []"
  shows "map_markers (plot_markers_on_map spells (JArr items) s) = ranked_markers spells 0 items"
    and "coords_status_label (plot_markers_on_map spells (JArr items) s) =
           (if ranked_markers spells 0 items = []
            then ''Parsed JSON, but no valid coordinates to plot.''
            else ''Plotted '' @ str_nat (length (ranked_markers spells 0 items))
                 @ '' potential locations (ranked).'')"
    and "map_position (plot_markers_on_map spells (JArr items) s) =
           (case ranked_markers spells 0 items of
              [] \<Rightarrow> map_position s
            | (lat, lon, label) # others \<Rightarrow> (lat, lon))"
    and "map_zoom (plot_markers_on_map spells (JArr items) s) =
           (case ranked_markers spells 0 items of [] \<Rightarrow> map_zoom s | m # others \<Rightarrow> 10)"
proof -
  from plot_loop_no_overflow [OF assms(1), of 0 0 True "delete_all_marker s"]
  obtain t where t:
    "plot_loop spells 0 items 0 True (delete_all_marker s)
       = Inr (length (ranked_markers spells 0 items), t)"
    "map_markers t = ranked_markers spells 0 items"
    "map_position t =
       (case ranked_markers spells 0 items of
          [] \<Rightarrow> map_position s
        | (lat, lon, label) # others \<Rightarrow> (lat, lon))"
    "map_zoom t = (case ranked_markers spells 0 items of [] \<Rightarrow> map_zoom s | m # others \<Rightarrow> 10)"
    by (auto split: list.splits)
  have r: "plot_markers_on_map spells (JArr items) s =
      (if ranked_markers spells 0 items = []
       then update_results ''Parsed JSON, but no valid coordinates to plot.'' False ''coords'' t
       else update_results
              (''Plotted '' @ str_nat (length (ranked_markers spells 0 items))
               @ '' potential locations (ranked).'') False ''coords'' t)"
    using t(1) assms(2) by (simp add: plot_markers_on_map_def Let_def)
  show "map_markers (plot_markers_on_map spells (JArr items) s) = ranked_markers spells 0 items"
    using r t(2) by simp
  show "coords_status_label (plot_markers_on_map spells (JArr items) s) =
           (if ranked_markers spells 0 items = []
            then ''Parsed JSON, but no valid coordinates to plot.''
            else ''Plotted '' @ str_nat (length (ranked_markers spells 0 items))
                 @ '' potential locations (ranked).'')"
    using r by simp
  show "map_position (plot_markers_on_map spells (JArr items) s) =
           (case ranked_markers spells 0 items of
              [] \<Rightarrow> map_position s
            | (lat, lon, label) # others \<Rightarrow> (lat, lon))"
    using r t(3) by (simp add: update_results_def)
  show "map_zoom (plot_markers_on_map spells (JArr items) s) =
           (case ranked_markers spells 0 items of [] \<Rightarrow> map_zoom s | m # others \<Rightarrow> 10)"
    using r t(4) by (simp add: update_results_def)
qed

lemma plot_markers_not_a_list:
  assumes "list_items data = None \<or> list_items data = Some []"
  shows "map_markers (plot_markers_on_map spells data s) = []"
    and "coords_status_label (plot_markers_on_map spells data s)
           = ''Parsed JSON coordinate data is empty or not a list.''"
  using assms by (auto simp: plot_markers_on_map_def Let_def)

lemma str_nat_small:
  "str_nat 1 = ''1''" "str_nat 2 = ''2''" "str_nat 3 = ''3''"
  "str_nat (Suc 0) = ''1''" "str_nat (Suc (Suc 0)) = ''2''" "str_nat (Suc (Suc (Suc 0))) = ''3''"
  by code_simp+


text \<open>
  C4 fails on the code for a record whose coordinate is an integer that \<open>float\<close> cannot
  hold. The list below has three records; the first and the third are valid, so the
  claim asks for the markers of rank 1 and 3 and a count of two. The second record raises
  \<open>OverflowError\<close>, which the handler of the loop does not catch: the loop ends there
  with only the first marker on the map, and no report reaches the coordinates label.
\<close>

theorem plot_markers_overflow_aborts:
  "ranked_markers spells 0 overflow_records
     = [(FloatOfInt 48, FloatOfInt 2, ''1''), (FloatOfInt 51, FloatOfInt 0, ''3'')]
   \<and> map_markers (plot_markers_on_map spells (JArr overflow_records) s)
       = [(FloatOfInt 48, FloatOfInt 2, ''1'')]
   \<and> coords_status_label (plot_markers_on_map spells (JArr overflow_records) s)
       = coords_status_label s"
  by (simp add: overflow_records_def plot_markers_on_map_def marker_coords_def Let_def
      str_nat_small delete_all_marker_def set_marker_def set_position_def set_zoom_def)


subsection \<open>Parsing the reply\<close>

lemma final_analysis_reply:
  assumes "chat_session s \<noteq> None" "captured_frames s \<noteq> []"
  shows "\<exists>t. map_markers t = []
     \<and> step loads spells (AnalysisWorker (Inr full_text)) s
       = run_callbacks (analysis_replied loads spells (Inr full_text)) t"
proof -
  from assms(1) obtain session where session: "chat_session s = Some session" by auto
  define intro_text where "intro_text =
     ''Here are '' @ str_nat (length (captured_frames s))
     @ '' frames captured sequentially during exploration of a location. ''
     @ ''Please analyze them together with the following request:''"
  define t where "t = delete_all_marker
     (update_results ''Waiting for analysis...'' False ''coords''
        (sending_notice
           (s\<lparr>client_calls :=
                client_calls s @ [(session, FinalTurn intro_text (captured_frames s))]\<rparr>)))"
  have "step loads spells (AnalysisWorker (Inr full_text)) s
      = run_callbacks (analysis_replied loads spells (Inr full_text)) t"
    using session assms(2)
    by (simp add: final_analysis_worker_def run_unit_def Let_def t_def intro_text_def)
  moreover have "map_markers t = []" by (simp add: t_def)
  ultimately show ?thesis by blast
qed

lemma analysis_replied_delimited:
  assumes "find full_text json_start_marker = int i" "find full_text json_end_marker = int j"
    "i < j"
  shows "analysis_replied loads spells (Inr full_text) =
     (case loads (strip (slice full_text (int i + int (length json_start_marker)) (int j))) of
        Decoded coordinate_data \<Rightarrow>
          [plot_markers_on_map spells coordinate_data,
           update_results (strip (slice_to full_text (int i))) False ''analysis'']
      | JSONDecodeError json_err \<Rightarrow>
          [update_results
             (''Error parsing JSON block: '' @ json_err @ NL @ ''Raw JSON:'' @ NL
              @ strip (slice full_text (int i + int (length json_start_marker)) (int j)))
             False ''coords'',
           update_results (strip (slice_to full_text (int i))) False ''analysis'']
      | Raised e \<Rightarrow> analysis_error e)
     @ [finalize_analysis_ui]"
  using assms by (simp add: analysis_replied_def parse_reply_def Let_def split: decoded.splits)

lemma analysis_replied_undelimited:
  assumes "find full_text json_start_marker = - 1 \<or> find full_text json_end_marker = - 1
     \<or> \<not> find full_text json_start_marker < find full_text json_end_marker"
  shows "analysis_replied loads spells (Inr full_text) =
     [update_results
        (''Warning: JSON markers not found.'' @ NL @ ''Full response in Analysis tab.'')
        False ''coords'',
      update_results full_text False ''analysis'',
      finalize_analysis_ui]"
  using assms by (auto simp: analysis_replied_def parse_reply_def Let_def)

lemma all_valid_no_overflow:
  assumes "map (marker_coords spells) items = map Inr coords"
  shows "\<forall>item \<in> set items. marker_coords spells item \<noteq> Inl OverflowError"
proof
  fix item assume "item \<in> set items"
  then have "marker_coords spells item \<in> set (map (marker_coords spells) items)" by simp
  with assms have "marker_coords spells item \<in> set (map Inr coords)" by simp
  then show "marker_coords spells item \<noteq> Inl OverflowError" by auto
qed

text \<open>
  C3. Let the first start delimiter of the reply lie before the first end delimiter, let
  the trimmed text between them decode to a list, and let every record of the list have
  coercible coordinates. Then the map holds one marker per record, in the order of the
  list, the k-th labelled k; the Analysis tab shows the trimmed text before the start
  delimiter; and the text given to the decoder is the trimmed text that stands strictly
  between the two delimiters.
\<close>

theorem parse_valid_payload:
  assumes "chat_session s \<noteq> None" and "captured_frames s \<noteq> []"
    and "find full_text json_start_marker = int i"
    and "find full_text json_end_marker = int j"
    and "i < j"
    and "loads (strip (slice full_text (int i + int (length json_start_marker)) (int j)))
           = Decoded (JArr items)"
    and "map (marker_coords spells) items = map Inr coords"
  shows "map_markers (step loads spells (AnalysisWorker (Inr full_text)) s)
           = map (\<lambda>(k, lat, lon). (lat, lon, str_nat (k + 1))) (enumerate 0 coords)
     \<and> length (map_markers (step loads spells (AnalysisWorker (Inr full_text)) s)) = length items
     \<and> analysis_text (step loads spells (AnalysisWorker (Inr full_text)) s)
         = strip (slice_to full_text (int i)) @ NL
     \<and> full_text = slice_to full_text (int i) @ json_start_marker
         @ slice full_text (int i + int (length json_start_marker)) (int j)
         @ json_end_marker @ drop (j + length json_end_marker) full_text"
proof -
  from final_analysis_reply [OF assms(1,2), of loads spells full_text]
  obtain t where t: "step loads spells (AnalysisWorker (Inr full_text)) s
       = run_callbacks (analysis_replied loads spells (Inr full_text)) t"
    by blast
  have len: "length coords = length items"
    using assms(7) by (metis length_map)
  have m: "map_markers (plot_markers_on_map spells (JArr items) t)
      = map (\<lambda>(k, lat, lon). (lat, lon, str_nat (k + 1))) (enumerate 0 coords)"
  proof (cases "items = []")
    case True
    with assms(7) show ?thesis by (simp add: plot_markers_not_a_list)
  next
    case False
    from plot_markers_no_overflow(1) [OF all_valid_no_overflow [OF assms(7)] False, of t]
      ranked_markers_all_valid [OF assms(7), of 0]
    show ?thesis by simp
  qed
  have "map_markers (step loads spells (AnalysisWorker (Inr full_text)) s)
           = map (\<lambda>(k, lat, lon). (lat, lon, str_nat (k + 1))) (enumerate 0 coords)"
    and "analysis_text (step loads spells (AnalysisWorker (Inr full_text)) s)
         = strip (slice_to full_text (int i)) @ NL"
    using t m assms(6) by (simp_all add: analysis_replied_delimited [OF assms(3,4,5)])
  with len reply_split [OF assms(3,4,5)] show ?thesis by (simp del: step.simps)
qed

lemma example_reply_delimiters:
  "find example_reply json_start_marker = 27"
  "find example_reply json_end_marker = 254"
  "example_loads (strip (slice example_reply (27 + int (length json_start_marker)) 254))
     = Decoded (JArr example_records)"
  "strip (slice_to example_reply 27) = ''Most likely Paris, France.''"
  by (simp_all add: example_reply_def example_payload_def find_def json_start_marker_def
      json_end_marker_def slice_def slice_to_def strip_def isspace_def example_loads_def)

lemma example_records_coords:
  "map (marker_coords example_spells) example_records
     = map Inr [(FloatOfStr ''48.8584'', FloatOfStr ''2.2945''), (FloatOfInt 51, FloatOfInt 0)]"
  by (simp add: example_records_def marker_coords_def)

theorem parse_valid_payload_witness:
  "chat_session analyzing_example \<noteq> None \<and> captured_frames analyzing_example \<noteq> []
   \<and> find example_reply json_start_marker = 27
   \<and> find example_reply json_end_marker = 254
   \<and> map_markers
        (step example_loads example_spells (AnalysisWorker (Inr example_reply)) analyzing_example)
       = [(FloatOfStr ''48.8584'', FloatOfStr ''2.2945'', ''1''),
          (FloatOfInt 51, FloatOfInt 0, ''2'')]
   \<and> analysis_text
        (step example_loads example_spells (AnalysisWorker (Inr example_reply)) analyzing_example)
       = ''Most likely Paris, France.'' @ NL"
proof -
  have a: "chat_session analyzing_example \<noteq> None" "captured_frames analyzing_example \<noteq> []"
    by (simp_all add: analyzing_example_fields)
  from parse_valid_payload
    [of analyzing_example example_reply 27 254 example_loads example_records example_spells
        "[(FloatOfStr ''48.8584'', FloatOfStr ''2.2945''), (FloatOfInt 51, FloatOfInt 0)]"]
  show ?thesis
    using a example_reply_delimiters example_records_coords
    by (simp add: enumerate_eq_zip str_nat_small del: step.simps)
qed

text \<open>
  C5. If a delimiter is missing from the reply, or the first start delimiter does not lie
  before the first end delimiter, the Analysis tab shows the whole reply, the coordinates
  label shows the warning, and the map holds no marker.
\<close>

theorem parse_without_delimiters:
  assumes "chat_session s \<noteq> None" and "captured_frames s \<noteq> []"
    and "find full_text json_start_marker = - 1 \<or> find full_text json_end_marker = - 1
         \<or> \<not> find full_text json_start_marker < find full_text json_end_marker"
  shows "analysis_text (step loads spells (AnalysisWorker (Inr full_text)) s) = full_text @ NL
     \<and> coords_status_label (step loads spells (AnalysisWorker (Inr full_text)) s)
         = ''Warning: JSON markers not found.'' @ NL @ ''Full response in Analysis tab.''
     \<and> map_markers (step loads spells (AnalysisWorker (Inr full_text)) s) = []"
proof -
  from final_analysis_reply [OF assms(1,2), of loads spells full_text]
  obtain t where t: "map_markers t = []"
      "step loads spells (AnalysisWorker (Inr full_text)) s
       = run_callbacks (analysis_replied loads spells (Inr full_text)) t"
    by blast
  then show ?thesis by (simp add: analysis_replied_undelimited [OF assms(3)])
qed

lemma open_reply_delimiters:
  "find open_reply json_end_marker = - 1"
  by (simp add: open_reply_def find_def json_end_marker_def)

theorem parse_without_delimiters_witness:
  "chat_session analyzing_example \<noteq> None \<and> captured_frames analyzing_example \<noteq> []
   \<and> find open_reply json_end_marker = - 1
   \<and> analysis_text
        (step example_loads example_spells (AnalysisWorker (Inr open_reply)) analyzing_example)
       = open_reply @ NL
   \<and> coords_status_label
        (step example_loads example_spells (AnalysisWorker (Inr open_reply)) analyzing_example)
       = ''Warning: JSON markers not found.'' @ NL @ ''Full response in Analysis tab.''
   \<and> map_markers
        (step example_loads example_spells (AnalysisWorker (Inr open_reply)) analyzing_example)
       = []"
proof -
  have a: "chat_session analyzing_example \<noteq> None" "captured_frames analyzing_example \<noteq> []"
    by (simp_all add: analyzing_example_fields)
  have d: "find open_reply json_start_marker = - 1 \<or> find open_reply json_end_marker = - 1
      \<or> \<not> find open_reply json_start_marker < find open_reply json_end_marker"
    by (simp add: open_reply_delimiters)
  from parse_without_delimiters [OF a d, of example_loads example_spells]
  show ?thesis using a open_reply_delimiters by (simp del: step.simps)
qed

text \<open>
  A payload that \<open>json.loads\<close> rejects with \<open>JSONDecodeError\<close>: the map holds no
  marker, the coordinates label shows the decoder's error followed by the text as it was
  given to the decoder, and the Analysis tab shows the trimmed text before the start
  delimiter.
\<close>

lemma parse_undecodable_payload:
  assumes "chat_session s \<noteq> None" and "captured_frames s \<noteq> []"
    and "find full_text json_start_marker = int i"
    and "find full_text json_end_marker = int j"
    and "i < j"
    and "loads (strip (slice full_text (int i + int (length json_start_marker)) (int j)))
           = JSONDecodeError json_err"
  shows "map_markers (step loads spells (AnalysisWorker (Inr full_text)) s) = []
     \<and> coords_status_label (step loads spells (AnalysisWorker (Inr full_text)) s)
         = ''Error parsing JSON block: '' @ json_err @ NL @ ''Raw JSON:'' @ NL
           @ strip (slice full_text (int i + int (length json_start_marker)) (int j))
     \<and> analysis_text (step loads spells (AnalysisWorker (Inr full_text)) s)
         = strip (slice_to full_text (int i)) @ NL"
proof -
  from final_analysis_reply [OF assms(1,2), of loads spells full_text]
  obtain t where t: "map_markers t = []"
      "step loads spells (AnalysisWorker (Inr full_text)) s
       = run_callbacks (analysis_replied loads spells (Inr full_text)) t"
    by blast
  then show ?thesis
    using assms(6) by (simp add: analysis_replied_delimited [OF assms(3,4,5)])
qed

lemma truncated_reply_delimiters:
  "find truncated_reply json_start_marker = 21"
  "find truncated_reply json_end_marker = 41"
  "strip (slice truncated_reply (21 + int (length json_start_marker)) 41) = ''[{''"
  "strip (slice_to truncated_reply 21) = ''Somewhere in Europe.''"
  by (simp_all add: truncated_reply_def find_def json_start_marker_def
      json_end_marker_def slice_def slice_to_def strip_def isspace_def)

lemma parse_undecodable_payload_example:
  "chat_session analyzing_example \<noteq> None \<and> captured_frames analyzing_example \<noteq> []
   \<and> find truncated_reply json_start_marker = 21
   \<and> find truncated_reply json_end_marker = 41
   \<and> map_markers
        (step example_loads example_spells (AnalysisWorker (Inr truncated_reply))
           analyzing_example) = []
   \<and> coords_status_label
        (step example_loads example_spells (AnalysisWorker (Inr truncated_reply))
           analyzing_example)
       = ''Error parsing JSON block: ''
         @ ''Expecting property name enclosed in double quotes: line 1 column 3 (char 2)''
         @ NL @ ''Raw JSON:'' @ NL @ ''[{''
   \<and> analysis_text
        (step example_loads example_spells (AnalysisWorker (Inr truncated_reply))
           analyzing_example)
       = ''Somewhere in Europe.'' @ NL"
proof -
  have a: "chat_session analyzing_example \<noteq> None" "captured_frames analyzing_example \<noteq> []"
    by (simp_all add: analyzing_example_fields)
  have l: "example_loads ''[{''
     = JSONDecodeError
         ''Expecting property name enclosed in double quotes: line 1 column 3 (char 2)''"
    by (simp add: example_loads_def example_payload_def)
  from parse_undecodable_payload
    [of analyzing_example truncated_reply 21 41 example_loads
        "''Expecting property name enclosed in double quotes: line 1 column 3 (char 2)''"
        example_spells]
  show ?thesis
    using a l truncated_reply_delimiters by (simp del: step.simps)
qed

lemma deep_reply_delimiters:
  "find deep_reply json_start_marker = 21"
  "find deep_reply json_end_marker = 1139"
  "strip (slice deep_reply (21 + int (length json_start_marker)) 1139) = deep_payload"
  by code_simp+

lemma deep_loads:
  "example_loads deep_payload
     = Raised ''maximum recursion depth exceeded while decoding a JSON array from a unicode string''"
  by code_simp

lemma analyzing_example_text:
  "analysis_text analyzing_example = ''Starting new session...'' @ NL"
  "map_markers analyzing_example = []"
  by (simp_all add: analyzing_example_def eval_defs)

text \<open>
  C6 fails on the code for a payload that \<open>json.loads\<close> gives up on with an exception
  other than \<open>JSONDecodeError\<close>. The reply below has both delimiters in order and 1100
  opening brackets between them; decoding raises \<open>RecursionError\<close>. The handler for
  \<open>json.JSONDecodeError\<close> does not catch it, the handler \<open>except Exception\<close> does: the
  coordinates label gets no report with the raw block and stays at the waiting notice,
  and the Analysis tab gets the error text appended and never shows the text before the
  start delimiter.
\<close>

theorem parse_recursion_error_unreported:
  "find deep_reply json_start_marker = 21
   \<and> find deep_reply json_end_marker = 1139
   \<and> example_loads (strip (slice deep_reply (21 + int (length json_start_marker)) 1139))
       = Raised
           ''maximum recursion depth exceeded while decoding a JSON array from a unicode string''
   \<and> coords_status_label
        (step example_loads example_spells (AnalysisWorker (Inr deep_reply)) analyzing_example)
       = ''Waiting for analysis...''
   \<and> analysis_text
        (step example_loads example_spells (AnalysisWorker (Inr deep_reply)) analyzing_example)
       = ''Starting new session...'' @ NL
         @ NL @ ''Sending 1 captured frames and requesting final analysis...'' @ NL
         @ NL @ ''--- ANALYSIS ERROR ---'' @ NL
         @ ''maximum recursion depth exceeded while decoding a JSON array from a unicode string''
         @ NL"
proof -
  have d: "find deep_reply json_start_marker = int 21"
    "find deep_reply json_end_marker = int 1139" "(21::nat) < 1139"
    by (simp_all add: deep_reply_delimiters)
  have r: "analysis_replied example_loads example_spells (Inr deep_reply)
      = (analysis_error
           ''maximum recursion depth exceeded while decoding a JSON array from a unicode string''
         @ [finalize_analysis_ui] :: nat callback list)"
    by (simp add: analysis_replied_delimited [OF d] deep_reply_delimiters deep_loads)
  show ?thesis
    by (simp add: deep_reply_delimiters deep_loads analyzing_example_fields
        analyzing_example_text final_analysis_worker_def run_unit_def Let_def r
        analysis_error_def analysis_error_on_coords_def sending_notice_def str_nat_small)
qed

end
